theory Spec2Isabelle
  imports Main "HOL-Library.AList"
begin

section \<open>The CRD migration controller of the registration operator\<close>

text \<open>
  A shallow embedding of
  \<^verbatim>\<open>pkg/operators/clustermanager/controllers/migrationcontroller/migration_controller.go\<close>.
  The controller keeps two StorageVersionMigration requests on the hub in step with the
  manifests compiled into the operator. Its functions are translated one by one, in the
  order and with the branches of the Go code. What the Go code reaches through client
  handles (the object store, the event recorder, the work queue) is one explicit
  \<open>world\<close> value that every function takes and returns.
\<close>

subsection \<open>Errors\<close>

text \<open>
  The errors the controller sees or makes. The first three are the status errors of the
  object store (\<^verbatim>\<open>errors.IsNotFound\<close> recognises the first). \<open>MissingAsset\<close>,
  \<open>CannotDecode\<close> and \<open>InvalidObject\<close> are the three \<^verbatim>\<open>fmt.Errorf\<close> messages of the
  controller (formatted with \<^verbatim>\<open>%v\<close>, so they do not wrap their cause), \<open>AssetError\<close> is an
  error of the manifest reader or the decoder, and \<open>Aggregate\<close> is the multi-line aggregate
  of \<^verbatim>\<open>operatorhelpers.NewMultiLineAggregate\<close>.
\<close>

datatype error =
    StatusNotFound string
  | StatusAlreadyExists string
  | StatusOther string
  | AssetError string
  | MissingAsset string error
  | CannotDecode string error
  | InvalidObject string
  | Aggregate "error list"

fun IsNotFound :: "error \<Rightarrow> bool" where
  "IsNotFound (StatusNotFound n) = True"
| "IsNotFound e = False"

subsection \<open>Objects\<close>

type_synonym bytes = string

text \<open>
  \<^verbatim>\<open>metav1.ObjectMeta\<close>, with the fields the controller and the store touch. Go maps are
  association lists. Instants are nanoseconds counted from Go's zero time, so the zero
  \<^verbatim>\<open>time.Time\<close> is \<open>0\<close>; \<open>DeletionTimestamp\<close> is a pointer, \<open>None\<close> when nil.
\<close>

record ObjectMeta =
  Name :: string
  Namespace :: string
  Labels :: "(string \<times> string) list"
  Annotations :: "(string \<times> string) list"
  UID :: string
  ResourceVersion :: string
  DeletionTimestamp :: "int option"

record GroupVersionResource =
  Group :: string
  Version :: string
  Resource :: string

record StorageVersionMigrationSpec =
  SpecResource :: GroupVersionResource
  ContinueToken :: string

record StorageVersionMigration =
  ObjectMeta :: ObjectMeta
  Spec :: StorageVersionMigrationSpec
  Status :: "(string \<times> string) list"

text \<open>What the decoder can hand back: the expected kind, or an object of another kind.\<close>

datatype runtime_Object =
    SVM StorageVersionMigration
  | OtherObject string

record Condition =
  Type :: string
  ConditionStatus :: string

record ClusterManager =
  ClusterManagerMeta :: ObjectMeta
  Conditions :: "Condition list"

definition clusterManagerApplied :: string where
  "clusterManagerApplied = ''Applied''"

definition migrationRequestCRDName :: string where
  "migrationRequestCRDName = ''storageversionmigrations.migration.k8s.io''"

definition migrationRequestFiles :: "string list" where
  "migrationRequestFiles =
     [''cluster-manager/cluster-manager-managedclustersets-migration.yaml'',
      ''cluster-manager/cluster-manager-managedclustersetbindings-migration.yaml'']"

text \<open>\<^verbatim>\<open>time.Second\<close>, a \<^verbatim>\<open>time.Duration\<close> in nanoseconds.\<close>

definition Second :: int where
  "Second = 1000000000"

text \<open>\<^verbatim>\<open>(*metav1.Time).IsZero\<close>: a nil pointer or the zero instant.\<close>

fun IsZero :: "int option \<Rightarrow> bool" where
  "IsZero None = True"
| "IsZero (Some t) = (t = 0)"

text \<open>
  \<^verbatim>\<open>meta.IsStatusConditionTrue\<close>: the first condition of the given type decides; no such
  condition means false.
\<close>

fun IsStatusConditionTrue :: "Condition list \<Rightarrow> string \<Rightarrow> bool" where
  "IsStatusConditionTrue [] conditionType = False"
| "IsStatusConditionTrue (c # cs) conditionType =
     (if Type c = conditionType then ConditionStatus c = ''True''
      else IsStatusConditionTrue cs conditionType)"

subsection \<open>The world: object store, recorder and queue\<close>

text \<open>
  The calls the controller issues against the store, as the testing clientset of the
  repository's unit test records them (\<^verbatim>\<open>get\<close>, \<^verbatim>\<open>create\<close>, \<^verbatim>\<open>update\<close>, \<^verbatim>\<open>delete\<close> on
  migrations; \<^verbatim>\<open>get\<close> on the CRD).
\<close>

datatype action =
    GetCRDAction string
  | GetAction string
  | CreateAction StorageVersionMigration
  | UpdateAction StorageVersionMigration
  | DeleteAction string

text \<open>
  An event of the recorder: \<^verbatim>\<open>Eventf\<close> or \<^verbatim>\<open>Warningf\<close>, with the reason token and the name
  of the object the message is formatted from (and the error of a warning).
\<close>

datatype event =
    Eventf string string
  | Warningf string string error

text \<open>
  The store behaves like the object tracker behind the testing clientsets: a map from
  names to stored objects, answering NotFound and AlreadyExists itself. \<open>faults\<close> is the
  reactor chain in front of it: asked with the number of calls made so far and the call
  at hand, it may fail that call with any error, so every store call of the controller
  can fail in every way. \<open>calls\<close> is the trace of the calls with their outcomes,
  \<open>events\<close> what the recorder received, \<open>queue\<close> the \<^verbatim>\<open>AddAfter\<close> requests with their
  delays.
\<close>

record world =
  crds :: "string set"
  objects :: "string \<rightharpoonup> StorageVersionMigration"
  faults :: "nat \<Rightarrow> action \<Rightarrow> error option"
  calls :: "(action \<times> error option) list"
  events :: "event list"
  queue :: "(string \<times> int) list"

definition called :: "action \<Rightarrow> error option \<Rightarrow> world \<Rightarrow> world" where
  "called a r w = w\<lparr>calls := calls w @ [(a, r)]\<rparr>"

definition GetCRD :: "string \<Rightarrow> world \<Rightarrow> error option \<times> world" where
  "GetCRD n w =
     (case faults w (length (calls w)) (GetCRDAction n) of
        Some e \<Rightarrow> (Some e, called (GetCRDAction n) (Some e) w)
      | None \<Rightarrow>
          if n \<in> crds w then (None, called (GetCRDAction n) None w)
          else (Some (StatusNotFound n), called (GetCRDAction n) (Some (StatusNotFound n)) w))"

definition Get :: "string \<Rightarrow> world \<Rightarrow> (error + StorageVersionMigration) \<times> world" where
  "Get n w =
     (case faults w (length (calls w)) (GetAction n) of
        Some e \<Rightarrow> (Inl e, called (GetAction n) (Some e) w)
      | None \<Rightarrow>
          (case objects w n of
             None \<Rightarrow> (Inl (StatusNotFound n), called (GetAction n) (Some (StatusNotFound n)) w)
           | Some obj \<Rightarrow> (Inr obj, called (GetAction n) None w)))"

definition Create :: "StorageVersionMigration \<Rightarrow> world \<Rightarrow> (error + StorageVersionMigration) \<times> world" where
  "Create obj w =
     (let n = Name (ObjectMeta obj) in
      case faults w (length (calls w)) (CreateAction obj) of
        Some e \<Rightarrow> (Inl e, called (CreateAction obj) (Some e) w)
      | None \<Rightarrow>
          (case objects w n of
             Some old \<Rightarrow>
               (Inl (StatusAlreadyExists n), called (CreateAction obj) (Some (StatusAlreadyExists n)) w)
           | None \<Rightarrow>
               (Inr obj, called (CreateAction obj) None (w\<lparr>objects := (objects w)(n \<mapsto> obj)\<rparr>))))"

definition Update :: "StorageVersionMigration \<Rightarrow> world \<Rightarrow> (error + StorageVersionMigration) \<times> world" where
  "Update obj w =
     (let n = Name (ObjectMeta obj) in
      case faults w (length (calls w)) (UpdateAction obj) of
        Some e \<Rightarrow> (Inl e, called (UpdateAction obj) (Some e) w)
      | None \<Rightarrow>
          (case objects w n of
             None \<Rightarrow> (Inl (StatusNotFound n), called (UpdateAction obj) (Some (StatusNotFound n)) w)
           | Some old \<Rightarrow>
               (Inr obj, called (UpdateAction obj) None (w\<lparr>objects := (objects w)(n \<mapsto> obj)\<rparr>))))"

definition Delete :: "string \<Rightarrow> world \<Rightarrow> error option \<times> world" where
  "Delete n w =
     (case faults w (length (calls w)) (DeleteAction n) of
        Some e \<Rightarrow> (Some e, called (DeleteAction n) (Some e) w)
      | None \<Rightarrow>
          (case objects w n of
             None \<Rightarrow> (Some (StatusNotFound n), called (DeleteAction n) (Some (StatusNotFound n)) w)
           | Some old \<Rightarrow>
               (None, called (DeleteAction n) None (w\<lparr>objects := (objects w)(n := None)\<rparr>))))"

definition recorder_Eventf :: "string \<Rightarrow> string \<Rightarrow> world \<Rightarrow> world" where
  "recorder_Eventf reason subject w = w\<lparr>events := events w @ [Eventf reason subject]\<rparr>"

definition recorder_Warningf :: "string \<Rightarrow> string \<Rightarrow> error \<Rightarrow> world \<Rightarrow> world" where
  "recorder_Warningf reason subject err w = w\<lparr>events := events w @ [Warningf reason subject err]\<rparr>"

definition AddAfter :: "string \<Rightarrow> int \<Rightarrow> world \<Rightarrow> world" where
  "AddAfter key delay w = w\<lparr>queue := queue w @ [(key, delay)]\<rparr>"

subsection \<open>Collaborators outside the repository\<close>

text \<open>
  The functions the controller calls in other packages are parameters of the model:
  the reader of the compiled-in manifest files, the template renderer
  (\<^verbatim>\<open>assets.MustCreateAssetFromTemplate(...).Data\<close>, which only fails, by a panic, on a
  template that does not parse; the templates are fixed files of the operator), the
  decoder \<^verbatim>\<open>genericCodec.Decode\<close> and \<^verbatim>\<open>resourcemerge.EnsureObjectMeta\<close>. The last one
  gets the existing and the required metadata and returns whether it modified anything,
  with the merged metadata.
\<close>

record collaborators =
  ReadFile :: "string \<Rightarrow> error + bytes"
  MustCreateAssetFromTemplate :: "string \<Rightarrow> bytes \<Rightarrow> bytes"
  Decode :: "bytes \<Rightarrow> error + runtime_Object"
  EnsureObjectMeta :: "ObjectMeta \<Rightarrow> ObjectMeta \<Rightarrow> bool \<times> ObjectMeta"

text \<open>\<^verbatim>\<open>operatorhelpers.NewMultiLineAggregate\<close>: nil for no errors.\<close>

definition NewMultiLineAggregate :: "error list \<Rightarrow> error option" where
  "NewMultiLineAggregate errs = (if errs = [] then None else Some (Aggregate errs))"

subsection \<open>The controller\<close>

text \<open>
  \<^verbatim>\<open>applyStorageVersionMigration\<close>. The result is the returned object (\<open>None\<close> for nil; a
  failed store call returns no object), the \<open>changed\<close> flag and the error. In the branch
  of an existing object the Go code works on two objects, \<open>existing\<close> and its deep copy
  \<open>existingCopy\<close>; the model keeps both, each with the assignments the code makes to it.
\<close>

definition applyStorageVersionMigration ::
  "collaborators \<Rightarrow> (string \<Rightarrow> error + bytes) \<Rightarrow> string \<Rightarrow> world
     \<Rightarrow> (StorageVersionMigration option \<times> bool \<times> error option) \<times> world" where
  "applyStorageVersionMigration d manifests file w =
     (case manifests file of
        Inl err \<Rightarrow> ((None, False, Some (MissingAsset file err)), w)
      | Inr objBytes \<Rightarrow>
     (case Decode d objBytes of
        Inl err \<Rightarrow> ((None, False, Some (CannotDecode file err)), w)
      | Inr requiredObj \<Rightarrow>
     (case requiredObj of
        OtherObject kind \<Rightarrow> ((None, False, Some (InvalidObject file)), w)
      | SVM required \<Rightarrow>
     (case Get (Name (ObjectMeta required)) w of
        (Inl err, w1) \<Rightarrow>
          if IsNotFound err then
            (case Create required w1 of
               (Inl err, w2) \<Rightarrow>
                 ((None, True, Some err),
                  recorder_Warningf ''StorageVersionMigrationCreateFailed''
                    (Name (ObjectMeta required)) err w2)
             | (Inr actual, w2) \<Rightarrow>
                 ((Some actual, True, None),
                  recorder_Eventf ''StorageVersionMigrationCreated'' (Name (ObjectMeta actual)) w2))
          else ((None, False, Some err), w1)
      | (Inr existing, w1) \<Rightarrow>
          (let (modified, meta) = EnsureObjectMeta d (ObjectMeta existing) (ObjectMeta required);
               existingCopy = existing\<lparr>ObjectMeta := meta\<rparr>;
               differs = (Spec existingCopy \<noteq> Spec required);
               modified = (modified \<or> differs);
               existing = (if differs then existing\<lparr>Spec := Spec required\<rparr> else existing)
           in if \<not> modified then ((Some existing, False, None), w1)
              else
                (case Update existingCopy w1 of
                   (Inl err, w2) \<Rightarrow>
                     ((None, True, Some err),
                      recorder_Warningf ''StorageVersionMigrationUpdateFailed''
                        (Name (ObjectMeta existingCopy)) err w2)
                 | (Inr actual, w2) \<Rightarrow>
                     ((Some actual, True, None),
                      recorder_Eventf ''StorageVersionMigrationUpdated''
                        (Name (ObjectMeta actual)) w2)))))))"

definition removeStorageVersionMigration ::
  "collaborators \<Rightarrow> (string \<Rightarrow> error + bytes) \<Rightarrow> string \<Rightarrow> world \<Rightarrow> error option \<times> world" where
  "removeStorageVersionMigration d manifests file w =
     (case manifests file of
        Inl err \<Rightarrow> (Some err, w)
      | Inr objectRaw \<Rightarrow>
     (case Decode d objectRaw of
        Inl err \<Rightarrow> (Some err, w)
      | Inr object \<Rightarrow>
     (case object of
        OtherObject kind \<Rightarrow> (Some (InvalidObject file), w)
      | SVM required \<Rightarrow>
     (case Delete (Name (ObjectMeta required)) w of
        (Some err, w1) \<Rightarrow> if IsNotFound err then (None, w1) else (Some err, w1)
      | (None, w1) \<Rightarrow> (None, w1)))))"

text \<open>The closure both loops pass as the asset function.\<close>

definition assetFunc :: "collaborators \<Rightarrow> string \<Rightarrow> error + bytes" where
  "assetFunc d name =
     (case ReadFile d name of
        Inl err \<Rightarrow> Inl err
      | Inr template \<Rightarrow> Inr (MustCreateAssetFromTemplate d name template))"

text \<open>The loop of \<^verbatim>\<open>removeStorageVersionMigrations\<close>: it returns at the first error.\<close>

fun removeEach :: "collaborators \<Rightarrow> string list \<Rightarrow> world \<Rightarrow> error option \<times> world" where
  "removeEach d [] w = (None, w)"
| "removeEach d (file # files) w =
     (case removeStorageVersionMigration d (assetFunc d) file w of
        (Some err, w1) \<Rightarrow> (Some err, w1)
      | (None, w1) \<Rightarrow> removeEach d files w1)"

definition removeStorageVersionMigrations :: "collaborators \<Rightarrow> world \<Rightarrow> error option \<times> world" where
  "removeStorageVersionMigrations d w = removeEach d migrationRequestFiles w"

text \<open>The loop of \<^verbatim>\<open>applyStorageVersionMigrations\<close>: it appends every error to \<open>errs\<close>.\<close>

fun applyEach :: "collaborators \<Rightarrow> string list \<Rightarrow> error list \<Rightarrow> world \<Rightarrow> error list \<times> world" where
  "applyEach d [] errs w = (errs, w)"
| "applyEach d (file # files) errs w =
     (case applyStorageVersionMigration d (assetFunc d) file w of
        ((obj, changed, Some err), w1) \<Rightarrow> applyEach d files (errs @ [err]) w1
      | ((obj, changed, None), w1) \<Rightarrow> applyEach d files errs w1)"

definition applyStorageVersionMigrations :: "collaborators \<Rightarrow> world \<Rightarrow> error option \<times> world" where
  "applyStorageVersionMigrations d w =
     (case applyEach d migrationRequestFiles [] w of
        (errs, w1) \<Rightarrow> (NewMultiLineAggregate errs, w1))"

definition supportStorageVersionMigration :: "world \<Rightarrow> (error + bool) \<times> world" where
  "supportStorageVersionMigration w =
     (case GetCRD migrationRequestCRDName w of
        (Some err, w1) \<Rightarrow> if IsNotFound err then (Inr False, w1) else (Inl err, w1)
      | (None, w1) \<Rightarrow> (Inr True, w1))"

text \<open>
  \<^verbatim>\<open>sync\<close>, for the queue key and the lister of the controller (a read of the informer
  cache, which is no call to the store).
\<close>

definition sync ::
  "collaborators \<Rightarrow> (string \<Rightarrow> error + ClusterManager) \<Rightarrow> string \<Rightarrow> world \<Rightarrow> error option \<times> world" where
  "sync d clusterManagerLister clusterManagerName w =
     (case clusterManagerLister clusterManagerName of
        Inl err \<Rightarrow> if IsNotFound err then (None, w) else (Some err, w)
      | Inr clusterManager \<Rightarrow>
     (case supportStorageVersionMigration w of
        (Inl err, w1) \<Rightarrow> (Some err, w1)
      | (Inr supported, w1) \<Rightarrow>
          if \<not> supported then (None, w1)
          else if \<not> IsZero (DeletionTimestamp (ClusterManagerMeta clusterManager)) then
            removeStorageVersionMigrations d w1
          else if \<not> IsStatusConditionTrue (Conditions clusterManager) clusterManagerApplied then
            (None, AddAfter clusterManagerName (5 * Second) w1)
          else applyStorageVersionMigrations d w1))"

subsection \<open>Observers of a run\<close>

text \<open>The calls, events and queue entries a run from \<open>w\<close> to \<open>w'\<close> added.\<close>

definition newCalls :: "world \<Rightarrow> world \<Rightarrow> (action \<times> error option) list" where
  "newCalls w w' = drop (length (calls w)) (calls w')"

definition newEvents :: "world \<Rightarrow> world \<Rightarrow> event list" where
  "newEvents w w' = drop (length (events w)) (events w')"

fun isMutation :: "action \<Rightarrow> bool" where
  "isMutation (CreateAction obj) = True"
| "isMutation (UpdateAction obj) = True"
| "isMutation (DeleteAction n) = True"
| "isMutation a = False"

fun isCreateOrUpdate :: "action \<Rightarrow> bool" where
  "isCreateOrUpdate (CreateAction obj) = True"
| "isCreateOrUpdate (UpdateAction obj) = True"
| "isCreateOrUpdate a = False"

subsection \<open>The policies of the multi-artifact operations, in the words of the specification\<close>

text \<open>
  Aggregate and continue: every artifact is attempted, in order and whatever its siblings
  did; the failures are collected and combined into one aggregate error.
\<close>

fun attemptEvery ::
  "(string \<Rightarrow> world \<Rightarrow> error option \<times> world) \<Rightarrow> string list \<Rightarrow> world \<Rightarrow> error option list \<times> world" where
  "attemptEvery f [] w = ([], w)"
| "attemptEvery f (file # files) w =
     (case f file w of
        (r, w1) \<Rightarrow> (case attemptEvery f files w1 of (rs, w2) \<Rightarrow> (r # rs, w2)))"

fun failures :: "error option list \<Rightarrow> error list" where
  "failures [] = []"
| "failures (None # rs) = failures rs"
| "failures (Some e # rs) = e # failures rs"

definition aggregateAndContinue ::
  "(string \<Rightarrow> world \<Rightarrow> error option \<times> world) \<Rightarrow> string list \<Rightarrow> world \<Rightarrow> error option \<times> world" where
  "aggregateAndContinue f files w =
     (case attemptEvery f files w of (rs, w1) \<Rightarrow> (NewMultiLineAggregate (failures rs), w1))"

text \<open>One artifact of each loop, reduced to its error and the world it leaves.\<close>

definition applyArtifact :: "collaborators \<Rightarrow> string \<Rightarrow> world \<Rightarrow> error option \<times> world" where
  "applyArtifact d file w =
     (case applyStorageVersionMigration d (assetFunc d) file w of
        ((obj, changed, err), w1) \<Rightarrow> (err, w1))"

definition removeArtifact :: "collaborators \<Rightarrow> string \<Rightarrow> world \<Rightarrow> error option \<times> world" where
  "removeArtifact d file w = removeStorageVersionMigration d (assetFunc d) file w"

text \<open>The desired object of a request file, when the file renders and decodes to one.\<close>

definition desired :: "collaborators \<Rightarrow> string \<Rightarrow> StorageVersionMigration option" where
  "desired d file =
     (case assetFunc d file of
        Inl err \<Rightarrow> None
      | Inr raw \<Rightarrow>
          (case Decode d raw of
             Inl err \<Rightarrow> None
           | Inr (OtherObject kind) \<Rightarrow> None
           | Inr (SVM required) \<Rightarrow> Some required))"

subsection \<open>A concrete hub\<close>

text \<open>
  An instance of the collaborators and of the world, for evaluating the controller on
  concrete inputs. \<^verbatim>\<open>resourcemerge.EnsureObjectMeta\<close> is written after the library: it
  writes namespace and name when the required one is set, and merges the required labels
  and annotations into the existing ones, flagging every change.
\<close>

definition SetStringIfSet :: "bool \<Rightarrow> string \<Rightarrow> string \<Rightarrow> bool \<times> string" where
  "SetStringIfSet modified existing required =
     (if length required = 0 then (modified, existing)
      else if required \<noteq> existing then (True, required)
      else (modified, existing))"

fun MergeMap ::
  "bool \<Rightarrow> (string \<times> string) list \<Rightarrow> (string \<times> string) list \<Rightarrow> bool \<times> (string \<times> string) list" where
  "MergeMap modified existing [] = (modified, existing)"
| "MergeMap modified existing ((k, v) # required) =
     (if map_of existing k = Some v then MergeMap modified existing required
      else MergeMap True (AList.update k v existing) required)"

definition resourcemerge_EnsureObjectMeta :: "ObjectMeta \<Rightarrow> ObjectMeta \<Rightarrow> bool \<times> ObjectMeta" where
  "resourcemerge_EnsureObjectMeta existing required =
     (case SetStringIfSet False (Namespace existing) (Namespace required) of (m1, ns) \<Rightarrow>
      case SetStringIfSet m1 (Name existing) (Name required) of (m2, n) \<Rightarrow>
      case MergeMap m2 (Labels existing) (Labels required) of (m3, ls) \<Rightarrow>
      case MergeMap m3 (Annotations existing) (Annotations required) of (m4, as) \<Rightarrow>
        (m4, existing\<lparr>Name := n, Namespace := ns, Labels := ls, Annotations := as\<rparr>))"

definition named :: "string \<Rightarrow> ObjectMeta" where
  "named n = \<lparr>Name = n, Namespace = [], Labels = [], Annotations = [], UID = [],
     ResourceVersion = [], DeletionTimestamp = None\<rparr>"

definition noSpec :: StorageVersionMigrationSpec where
  "noSpec = \<lparr>SpecResource = \<lparr>Group = [], Version = [], Resource = []\<rparr>, ContinueToken = []\<rparr>"

text \<open>
  The two migration requests, under the names the repository's unit test expects of the
  two request files. The manifest files belong to another package of the operator; the
  resource each spec names here is an example, and nothing below depends on it beyond
  being a spec that is not empty.
\<close>

definition managedclustersets :: StorageVersionMigration where
  "managedclustersets =
     \<lparr>ObjectMeta = named ''managedclustersets.cluster.open-cluster-management.io'',
      Spec = \<lparr>SpecResource = \<lparr>Group = ''cluster.open-cluster-management.io'',
                Version = ''v1beta1'', Resource = ''managedclustersets''\<rparr>, ContinueToken = []\<rparr>,
      Status = []\<rparr>"

definition managedclustersetbindings :: StorageVersionMigration where
  "managedclustersetbindings =
     \<lparr>ObjectMeta = named ''managedclustersetbindings.cluster.open-cluster-management.io'',
      Spec = \<lparr>SpecResource = \<lparr>Group = ''cluster.open-cluster-management.io'',
                Version = ''v1beta1'', Resource = ''managedclustersetbindings''\<rparr>, ContinueToken = []\<rparr>,
      Status = []\<rparr>"

text \<open>
  The existing object of the unit test's case "created and updated": only its name is
  set, so its spec is not the desired one.
\<close>

definition drifted :: StorageVersionMigration where
  "drifted =
     \<lparr>ObjectMeta = named ''managedclustersetbindings.cluster.open-cluster-management.io'',
      Spec = noSpec, Status = []\<rparr>"

text \<open>
  The manifest reader knows the two request files; a template renders to itself, and the
  decoder reads the two requests (here the payload of a file is its name).
\<close>

definition hub :: collaborators where
  "hub =
     \<lparr>ReadFile = (\<lambda>name. if name \<in> set migrationRequestFiles then Inr name
                   else Inl (AssetError name)),
      MustCreateAssetFromTemplate = (\<lambda>name template. template),
      Decode = (\<lambda>raw.
         if raw = ''cluster-manager/cluster-manager-managedclustersets-migration.yaml''
           then Inr (SVM managedclustersets)
         else if raw = ''cluster-manager/cluster-manager-managedclustersetbindings-migration.yaml''
           then Inr (SVM managedclustersetbindings)
         else Inl (AssetError raw)),
      EnsureObjectMeta = resourcemerge_EnsureObjectMeta\<rparr>"

text \<open>A store that holds the prerequisite CRD and nothing else, and never fails a call.\<close>

definition emptyHub :: world where
  "emptyHub =
     \<lparr>crds = {migrationRequestCRDName}, objects = Map.empty, faults = (\<lambda>i a. None),
      calls = [], events = [], queue = []\<rparr>"

text \<open>The empty store after the first request has been applied to it.\<close>

definition createdHub :: world where
  "createdHub =
     emptyHub\<lparr>objects := [''managedclustersets.cluster.open-cluster-management.io'' \<mapsto> managedclustersets],
       calls := [(GetAction ''managedclustersets.cluster.open-cluster-management.io'',
                   Some (StatusNotFound ''managedclustersets.cluster.open-cluster-management.io'')),
                 (CreateAction managedclustersets, None)],
       events := [Eventf ''StorageVersionMigrationCreated''
                   ''managedclustersets.cluster.open-cluster-management.io'']\<rparr>"

text \<open>The same store without the prerequisite CRD.\<close>

definition hubWithoutCRD :: world where
  "hubWithoutCRD = emptyHub\<lparr>crds := {}\<rparr>"

text \<open>The store of the unit test's case "created and updated".\<close>

definition driftedHub :: world where
  "driftedHub =
     emptyHub\<lparr>objects := [''managedclustersetbindings.cluster.open-cluster-management.io'' \<mapsto> drifted]\<rparr>"

text \<open>A store that fails every call with an error other than NotFound.\<close>

definition unavailableHub :: world where
  "unavailableHub = emptyHub\<lparr>faults := (\<lambda>i a. Some (StatusOther ''unavailable''))\<rparr>"

text \<open>A store that answers every lookup and fails every delete call.\<close>

definition deleteFailsHub :: world where
  "deleteFailsHub =
     emptyHub\<lparr>faults := (\<lambda>i a. case a of DeleteAction n \<Rightarrow> Some (StatusOther ''unavailable'')
                                      | _ \<Rightarrow> None)\<rparr>"

text \<open>A ClusterManager with the given deletion timestamp and conditions, and a lister holding it.\<close>

definition aClusterManager :: "int option \<Rightarrow> Condition list \<Rightarrow> ClusterManager" where
  "aClusterManager deletion conds =
     \<lparr>ClusterManagerMeta = (named ''cluster-manager'')\<lparr>DeletionTimestamp := deletion\<rparr>,
      Conditions = conds\<rparr>"

definition listerOf :: "ClusterManager \<Rightarrow> string \<Rightarrow> error + ClusterManager" where
  "listerOf cm key = (if key = Name (ClusterManagerMeta cm) then Inr cm else Inl (StatusNotFound key))"

section \<open>Properties\<close>

subsection \<open>What one store call leaves behind\<close>

lemma called_simps [simp]:
  "calls (called a r w) = calls w @ [(a, r)]"
  "events (called a r w) = events w"
  "queue (called a r w) = queue w"
  "objects (called a r w) = objects w"
  "faults (called a r w) = faults w"
  "crds (called a r w) = crds w"
  by (simp_all add: called_def)

lemma recorder_simps [simp]:
  "calls (recorder_Eventf reason s w) = calls w"
  "events (recorder_Eventf reason s w) = events w @ [Eventf reason s]"
  "queue (recorder_Eventf reason s w) = queue w"
  "objects (recorder_Eventf reason s w) = objects w"
  "faults (recorder_Eventf reason s w) = faults w"
  "crds (recorder_Eventf reason s w) = crds w"
  "calls (recorder_Warningf reason s e w) = calls w"
  "events (recorder_Warningf reason s e w) = events w @ [Warningf reason s e]"
  "queue (recorder_Warningf reason s e w) = queue w"
  "objects (recorder_Warningf reason s e w) = objects w"
  "faults (recorder_Warningf reason s e w) = faults w"
  "crds (recorder_Warningf reason s e w) = crds w"
  by (simp_all add: recorder_Eventf_def recorder_Warningf_def)

lemma Get_outcome:
  assumes "Get n w = (r, w1)"
  shows "w1 = called (GetAction n) (case r of Inl e \<Rightarrow> Some e | Inr obj \<Rightarrow> None) w"
  using assms by (auto simp: Get_def split: option.splits)

lemma Get_found:
  assumes "Get n w = (Inr obj, w1)"
  shows "objects w n = Some obj"
  using assms by (auto simp: Get_def split: option.splits)

lemma Create_outcome:
  assumes "Create obj w = (r, w1)"
  shows "calls w1 = calls w @ [(CreateAction obj, case r of Inl e \<Rightarrow> Some e | Inr a \<Rightarrow> None)]
    \<and> (\<forall>a. r = Inr a \<longrightarrow> a = obj)
    \<and> events w1 = events w \<and> queue w1 = queue w \<and> faults w1 = faults w \<and> crds w1 = crds w"
  using assms by (auto simp: Create_def Let_def split: option.splits)

lemma Update_outcome:
  assumes "Update obj w = (r, w1)"
  shows "calls w1 = calls w @ [(UpdateAction obj, case r of Inl e \<Rightarrow> Some e | Inr a \<Rightarrow> None)]
    \<and> (\<forall>a. r = Inr a \<longrightarrow> a = obj)
    \<and> events w1 = events w \<and> queue w1 = queue w \<and> faults w1 = faults w \<and> crds w1 = crds w"
  using assms by (auto simp: Update_def Let_def split: option.splits)

lemma Delete_outcome:
  assumes "Delete n w = (r, w1)"
  shows "calls w1 = calls w @ [(DeleteAction n, r)]
    \<and> events w1 = events w \<and> queue w1 = queue w \<and> faults w1 = faults w \<and> crds w1 = crds w"
  using assms by (auto simp: Delete_def split: option.splits)

lemma Delete_failed:
  assumes "Delete n w = (Some e, w1)"
  shows "objects w1 = objects w"
  using assms by (auto simp: Delete_def split: option.splits)

lemma GetCRD_outcome:
  assumes "GetCRD n w = (r, w1)"
  shows "w1 = called (GetCRDAction n) r w"
  using assms by (auto simp: GetCRD_def split: option.splits if_splits)

lemma newCalls_append [simp]: "calls w' = calls w @ xs \<Longrightarrow> newCalls w w' = xs"
  by (simp add: newCalls_def)

lemma newEvents_append [simp]: "events w' = events w @ xs \<Longrightarrow> newEvents w w' = xs"
  by (simp add: newEvents_def)

lemma newCalls_same [simp]: "newCalls w w = []"
  by (simp add: newCalls_def)

lemma newEvents_unchanged [simp]: "events w' = events w \<Longrightarrow> newEvents w w' = []"
  by (simp add: newEvents_def)

subsection \<open>The paths through applyStorageVersionMigration\<close>

text \<open>
  Every run of \<open>applyStorageVersionMigration\<close> takes one of seven paths, told apart by
  the store calls it made: none (the file did not render or decode to a migration
  request), a failed get, a get answering NotFound and a create (good or failed), a get
  alone (nothing to change), a get and an update (good or failed).
\<close>

lemma apply_paths:
  assumes "applyStorageVersionMigration d mf file w = ((obj, changed, err), w')"
  shows "(w' = w \<and> \<not> changed \<and> err \<noteq> None \<and> obj = None)
   \<or> (\<exists>n e. calls w' = calls w @ [(GetAction n, Some e)] \<and> \<not> IsNotFound e
         \<and> events w' = events w \<and> \<not> changed \<and> err = Some e)
   \<or> (\<exists>n e a. calls w' = calls w @ [(GetAction n, Some e), (CreateAction a, None)] \<and> IsNotFound e
         \<and> events w' = events w @ [Eventf ''StorageVersionMigrationCreated'' (Name (ObjectMeta a))]
         \<and> changed \<and> err = None)
   \<or> (\<exists>n e a e'. calls w' = calls w @ [(GetAction n, Some e), (CreateAction a, Some e')] \<and> IsNotFound e
         \<and> events w' = events w @ [Warningf ''StorageVersionMigrationCreateFailed'' (Name (ObjectMeta a)) e']
         \<and> changed \<and> err = Some e')
   \<or> (\<exists>n. calls w' = calls w @ [(GetAction n, None)]
         \<and> events w' = events w \<and> \<not> changed \<and> err = None)
   \<or> (\<exists>n a. calls w' = calls w @ [(GetAction n, None), (UpdateAction a, None)]
         \<and> events w' = events w @ [Eventf ''StorageVersionMigrationUpdated'' (Name (ObjectMeta a))]
         \<and> changed \<and> err = None)
   \<or> (\<exists>n a e'. calls w' = calls w @ [(GetAction n, None), (UpdateAction a, Some e')]
         \<and> events w' = events w @ [Warningf ''StorageVersionMigrationUpdateFailed'' (Name (ObjectMeta a)) e']
         \<and> changed \<and> err = Some e')"
  using assms
  unfolding applyStorageVersionMigration_def
  by (auto simp: Let_def split: sum.splits runtime_Object.splits prod.splits if_splits
      dest!: Get_outcome Create_outcome Update_outcome)

lemma apply_not_rendered:
  assumes "manifests file = Inl e
    \<or> (\<exists>raw. manifests file = Inr raw \<and> (\<exists>e'. Decode d raw = Inl e'))
    \<or> (\<exists>raw. manifests file = Inr raw \<and> (\<exists>kind. Decode d raw = Inr (OtherObject kind)))"
  shows "\<exists>e'. applyStorageVersionMigration d manifests file w = ((None, False, Some e'), w)"
  using assms by (auto simp: applyStorageVersionMigration_def)

lemma apply_render_errors:
  "manifests file = Inl e \<Longrightarrow>
     applyStorageVersionMigration d manifests file w = ((None, False, Some (MissingAsset file e)), w)"
  "manifests file = Inr raw \<Longrightarrow> Decode d raw = Inl e \<Longrightarrow>
     applyStorageVersionMigration d manifests file w = ((None, False, Some (CannotDecode file e)), w)"
  "manifests file = Inr raw \<Longrightarrow> Decode d raw = Inr (OtherObject kind) \<Longrightarrow>
     applyStorageVersionMigration d manifests file w = ((None, False, Some (InvalidObject file)), w)"
  by (simp_all add: applyStorageVersionMigration_def)

lemma apply_nothing_to_change:
  assumes "manifests file = Inr raw" and "Decode d raw = Inr (SVM required)"
    and "Get (Name (ObjectMeta required)) w = (Inr existing, w1)"
    and "EnsureObjectMeta d (ObjectMeta existing) (ObjectMeta required) = (False, meta)"
    and "Spec existing = Spec required"
  shows "applyStorageVersionMigration d manifests file w = ((Some existing, False, None), w1)"
  using assms by (simp add: applyStorageVersionMigration_def)

lemma apply_update_payload:
  assumes "manifests file = Inr raw" and "Decode d raw = Inr (SVM required)"
    and "Get (Name (ObjectMeta required)) w = (Inr existing, w1)"
    and "Spec existing \<noteq> Spec required"
    and "applyStorageVersionMigration d manifests file w = (res, w')"
  shows "\<exists>meta r. newCalls w w' =
     [(GetAction (Name (ObjectMeta required)), None), (UpdateAction (existing\<lparr>ObjectMeta := meta\<rparr>), r)]"
  using assms
  by (auto simp: applyStorageVersionMigration_def Let_def split: prod.splits sum.splits
      dest!: Get_outcome Update_outcome)

subsection \<open>The two loops\<close>

lemma applyEach_attemptEvery:
  "applyEach d files errs w =
     (case attemptEvery (applyArtifact d) files w of (rs, w') \<Rightarrow> (errs @ failures rs, w'))"
proof (induction files arbitrary: errs w)
  case Nil
  then show ?case by simp
next
  case (Cons f files)
  obtain obj changed err w1 where step:
    "applyStorageVersionMigration d (assetFunc d) f w = ((obj, changed, err), w1)"
    by (metis prod_cases3 surj_pair)
  show ?case
  proof (cases err)
    case None
    with step Cons.IH [of errs w1] show ?thesis
      by (simp add: applyArtifact_def split: prod.splits)
  next
    case (Some e)
    with step Cons.IH [of "errs @ [e]" w1] show ?thesis
      by (simp add: applyArtifact_def split: prod.splits)
  qed
qed

lemma removeEach_after_successes:
  assumes "attemptEvery (removeArtifact d) pre w = (rs, w1)" and "failures rs = []"
  shows "removeEach d (pre @ rest) w = removeEach d rest w1"
  using assms
proof (induction pre arbitrary: w rs)
  case Nil
  then show ?case by simp
next
  case (Cons f pre)
  obtain r wa where step: "removeArtifact d f w = (r, wa)" by (cases "removeArtifact d f w")
  obtain rs' wb where rest: "attemptEvery (removeArtifact d) pre wa = (rs', wb)"
    by (cases "attemptEvery (removeArtifact d) pre wa")
  from Cons.prems step rest have "rs = r # rs'" "wb = w1" by auto
  with Cons.prems(2) have "r = None" "failures rs' = []" by (cases r; simp)+
  from step \<open>r = None\<close> have "removeStorageVersionMigration d (assetFunc d) f w = (None, wa)"
    by (simp add: removeArtifact_def)
  with rest \<open>wb = w1\<close> \<open>failures rs' = []\<close> Cons.IH [of wa rs'] show ?case
    by simp
qed

lemma remove_keeps_queue:
  assumes "removeStorageVersionMigration d mf f w = (r, w')"
  shows "queue w' = queue w"
  using assms
  by (auto simp: removeStorageVersionMigration_def
      split: sum.splits runtime_Object.splits prod.splits option.splits if_splits dest!: Delete_outcome)

lemma removeEach_keeps_queue: "queue (snd (removeEach d files w)) = queue w"
proof (induction files arbitrary: w)
  case Nil
  then show ?case by simp
next
  case (Cons f files)
  obtain r w1 where step: "removeStorageVersionMigration d (assetFunc d) f w = (r, w1)"
    by (cases "removeStorageVersionMigration d (assetFunc d) f w")
  with remove_keeps_queue [OF step] Cons.IH [of w1] show ?case
    by (cases r) simp_all
qed

lemma remove_rendered:
  assumes "desired d f = Some required"
    and "removeStorageVersionMigration d (assetFunc d) f w = (r, w')"
  shows "\<exists>r'. calls w' = calls w @ [(DeleteAction (Name (ObjectMeta required)), r')]"
  using assms
  by (auto simp: desired_def removeStorageVersionMigration_def
      split: sum.splits runtime_Object.splits prod.splits option.splits if_splits dest!: Delete_outcome)

lemma removeEach_success_calls:
  assumes "removeEach d files w = (None, w')"
    and "\<forall>f \<in> set files. desired d f = Some (required f)"
  shows "map fst (calls w') =
     map fst (calls w) @ map (\<lambda>f. DeleteAction (Name (ObjectMeta (required f)))) files"
  using assms
proof (induction files arbitrary: w)
  case Nil
  then show ?case by simp
next
  case (Cons f files)
  obtain r w1 where step: "removeStorageVersionMigration d (assetFunc d) f w = (r, w1)"
    by (cases "removeStorageVersionMigration d (assetFunc d) f w")
  with Cons.prems(1) have r: "r = None" and rest: "removeEach d files w1 = (None, w')"
    by (cases r; simp)+
  from Cons.prems(2) have "desired d f = Some (required f)" by simp
  from remove_rendered [OF this step]
  obtain r' where "calls w1 = calls w @ [(DeleteAction (Name (ObjectMeta (required f))), r')]" by blast
  moreover have "map fst (calls w') =
     map fst (calls w1) @ map (\<lambda>f. DeleteAction (Name (ObjectMeta (required f)))) files"
    using Cons.IH [OF rest] Cons.prems(2) by simp
  ultimately show ?case by simp
qed

subsection \<open>Runs on the concrete hub\<close>

lemmas store_defs = Let_def called_def GetCRD_def Get_def Create_def Update_def Delete_def
  recorder_Eventf_def recorder_Warningf_def AddAfter_def

lemmas hub_defs = hub_def emptyHub_def hubWithoutCRD_def driftedHub_def unavailableHub_def
  managedclustersets_def managedclustersetbindings_def drifted_def named_def noSpec_def
  resourcemerge_EnsureObjectMeta_def SetStringIfSet_def assetFunc_def migrationRequestFiles_def
  migrationRequestCRDName_def aClusterManager_def listerOf_def clusterManagerApplied_def

text \<open>
  The metadata merge of the concrete hub changes nothing, and says so, when metadata is
  merged into itself (the keys of a Go map are distinct).
\<close>

lemma MergeMap_contained:
  assumes "distinct (map fst existing)" and "set required \<subseteq> set existing"
  shows "MergeMap modified existing required = (modified, existing)"
  using assms by (induction required) auto

lemma EnsureObjectMeta_same:
  assumes "distinct (map fst (Labels m))" and "distinct (map fst (Annotations m))"
  shows "resourcemerge_EnsureObjectMeta m m = (False, m)"
  using assms
  by (simp add: resourcemerge_EnsureObjectMeta_def SetStringIfSet_def MergeMap_contained)

lemma emptyHub_fields [simp]:
  "calls emptyHub = []" "events emptyHub = []" "queue emptyHub = []"
  "objects emptyHub = Map.empty" "faults emptyHub = (\<lambda>i a. None)"
  "crds emptyHub = {migrationRequestCRDName}"
  by (simp_all add: emptyHub_def)

lemma apply_first_on_emptyHub:
  "applyStorageVersionMigration hub (assetFunc hub)
     ''cluster-manager/cluster-manager-managedclustersets-migration.yaml'' emptyHub
   = ((Some managedclustersets, True, None), createdHub)"
  by (simp add: applyStorageVersionMigration_def createdHub_def store_defs hub_defs)

lemma createdHub_fields [simp]:
  "calls createdHub = [(GetAction ''managedclustersets.cluster.open-cluster-management.io'',
                   Some (StatusNotFound ''managedclustersets.cluster.open-cluster-management.io'')),
                 (CreateAction managedclustersets, None)]"
  "objects createdHub = [''managedclustersets.cluster.open-cluster-management.io'' \<mapsto> managedclustersets]"
  "faults createdHub = (\<lambda>i a. None)"
  by (simp_all add: createdHub_def)

lemma apply_first_on_createdHub:
  "applyStorageVersionMigration hub (assetFunc hub)
     ''cluster-manager/cluster-manager-managedclustersets-migration.yaml'' createdHub
   = ((Some managedclustersets, False, None),
      called (GetAction ''managedclustersets.cluster.open-cluster-management.io'') None createdHub)"
  by (simp add: applyStorageVersionMigration_def createdHub_def store_defs hub_defs)

lemma hub_renders_first:
  "assetFunc hub ''cluster-manager/cluster-manager-managedclustersets-migration.yaml''
     = Inr ''cluster-manager/cluster-manager-managedclustersets-migration.yaml''"
  "Decode hub ''cluster-manager/cluster-manager-managedclustersets-migration.yaml'' = Inr (SVM managedclustersets)"
  by (simp_all add: hub_def assetFunc_def migrationRequestFiles_def)

lemma unavailableHub_fields [simp]:
  "calls unavailableHub = []" "events unavailableHub = []" "queue unavailableHub = []"
  "objects unavailableHub = Map.empty" "faults unavailableHub = (\<lambda>i a. Some (StatusOther ''unavailable''))"
  by (simp_all add: unavailableHub_def emptyHub_def)

lemma remove_on_unavailableHub:
  "removeStorageVersionMigrations hub unavailableHub
     = (Some (StatusOther ''unavailable''),
        called (DeleteAction ''managedclustersets.cluster.open-cluster-management.io'')
          (Some (StatusOther ''unavailable'')) unavailableHub)"
  by (simp add: removeStorageVersionMigrations_def removeStorageVersionMigration_def Delete_def hub_def
      assetFunc_def migrationRequestFiles_def managedclustersets_def named_def)

lemma attemptEvery_remove_on_unavailableHub:
  "fst (aggregateAndContinue (removeArtifact hub) migrationRequestFiles unavailableHub)
     = Some (Aggregate [StatusOther ''unavailable'', StatusOther ''unavailable''])"
  by (simp add: aggregateAndContinue_def removeArtifact_def removeStorageVersionMigration_def Delete_def hub_def
      assetFunc_def migrationRequestFiles_def managedclustersets_def managedclustersetbindings_def named_def
      NewMultiLineAggregate_def)

lemma apply_on_unavailableHub:
  "fst (applyStorageVersionMigrations hub unavailableHub)
     = Some (Aggregate [StatusOther ''unavailable'', StatusOther ''unavailable''])"
  by (simp add: applyStorageVersionMigrations_def applyStorageVersionMigration_def Get_def hub_def
      assetFunc_def migrationRequestFiles_def managedclustersets_def managedclustersetbindings_def named_def
      NewMultiLineAggregate_def)

lemma hub_desired:
  "\<forall>f \<in> set migrationRequestFiles. desired hub f =
     Some (if f = ''cluster-manager/cluster-manager-managedclustersets-migration.yaml''
           then managedclustersets else managedclustersetbindings)"
  by (simp add: desired_def hub_def assetFunc_def migrationRequestFiles_def)

lemma sync_deleting_on_emptyHub:
  "fst (sync hub (listerOf (aClusterManager (Some 1) [])) ''cluster-manager'' emptyHub) = None"
  by (simp add: sync_def supportStorageVersionMigration_def GetCRD_def listerOf_def aClusterManager_def
      named_def removeStorageVersionMigrations_def removeStorageVersionMigration_def Delete_def hub_def
      assetFunc_def migrationRequestFiles_def managedclustersets_def managedclustersetbindings_def)

lemma hubWithoutCRD_fields [simp]:
  "calls hubWithoutCRD = []" "crds hubWithoutCRD = {}" "faults hubWithoutCRD = (\<lambda>i a. None)"
  by (simp_all add: hubWithoutCRD_def emptyHub_def)

lemma apply_first_on_unavailableHub:
  "applyStorageVersionMigration hub (assetFunc hub)
     ''cluster-manager/cluster-manager-managedclustersets-migration.yaml'' unavailableHub
   = ((None, False, Some (StatusOther ''unavailable'')),
      called (GetAction ''managedclustersets.cluster.open-cluster-management.io'')
        (Some (StatusOther ''unavailable'')) unavailableHub)"
  by (simp add: applyStorageVersionMigration_def Get_def hub_def assetFunc_def migrationRequestFiles_def
      managedclustersets_def named_def)

subsection \<open>The claims\<close>

text \<open>
  C1, on the code as it is: in the unit test's case "created and updated" the store holds
  the second request with a spec that is not the desired one. The call issues one update,
  and the object it sends is the observed object, spec included: the desired spec was
  assigned to \<open>existing\<close>, while \<open>existingCopy\<close> is what goes to the store. The store
  keeps the observed spec.
\<close>

theorem update_sends_the_observed_spec:
  "applyStorageVersionMigration hub (assetFunc hub)
     ''cluster-manager/cluster-manager-managedclustersetbindings-migration.yaml'' driftedHub
   = ((Some drifted, True, None),
      driftedHub\<lparr>calls := [(GetAction ''managedclustersetbindings.cluster.open-cluster-management.io'', None),
                            (UpdateAction drifted, None)],
        events := [Eventf ''StorageVersionMigrationUpdated''
                    ''managedclustersetbindings.cluster.open-cluster-management.io'']\<rparr>)
   \<and> desired hub ''cluster-manager/cluster-manager-managedclustersetbindings-migration.yaml''
       = Some managedclustersetbindings
   \<and> Spec drifted \<noteq> Spec managedclustersetbindings"
  by (simp add: applyStorageVersionMigration_def desired_def store_defs hub_defs)

text \<open>
  C2: a desired object applied twice in a row to a store that does not hold it (an empty
  store in particular) and does not fail: the first call reports changed after a get
  answering NotFound and one create, the second reports unchanged after a get alone, so
  there is one create, no update, and the second call leaves the stored objects alone.
  The metadata merge of the library is a parameter; it is assumed to report no
  modification when the required metadata is merged into itself, as the merge of the
  concrete hub does (\<open>EnsureObjectMeta_same\<close>).
\<close>

theorem apply_twice:
  assumes "manifests file = Inr raw" and "Decode d raw = Inr (SVM required)"
    and "objects w (Name (ObjectMeta required)) = None"
    and "faults w = (\<lambda>i a. None)"
    and "fst (EnsureObjectMeta d (ObjectMeta required) (ObjectMeta required)) = False"
    and "applyStorageVersionMigration d manifests file w = ((obj1, changed1, err1), w1)"
    and "applyStorageVersionMigration d manifests file w1 = ((obj2, changed2, err2), w2)"
  shows "changed1 \<and> err1 = None
    \<and> newCalls w w1 = [(GetAction (Name (ObjectMeta required)), Some (StatusNotFound (Name (ObjectMeta required)))),
                        (CreateAction required, None)]
    \<and> \<not> changed2 \<and> err2 = None
    \<and> newCalls w1 w2 = [(GetAction (Name (ObjectMeta required)), None)]
    \<and> objects w2 = objects w1"
proof -
  from assms(1-4,6)
  have first: "changed1" "err1 = None" "obj1 = Some required"
    "w1 = recorder_Eventf ''StorageVersionMigrationCreated'' (Name (ObjectMeta required))
       (called (CreateAction required) None
         ((called (GetAction (Name (ObjectMeta required))) (Some (StatusNotFound (Name (ObjectMeta required)))) w)
            \<lparr>objects := (objects w)(Name (ObjectMeta required) \<mapsto> required)\<rparr>))"
    by (auto simp: applyStorageVersionMigration_def Get_def Create_def Let_def called_def)
  have stored: "objects w1 (Name (ObjectMeta required)) = Some required" "faults w1 = (\<lambda>i a. None)"
    using first(4) assms(4) by (simp_all add: called_def)
  obtain meta where meta: "EnsureObjectMeta d (ObjectMeta required) (ObjectMeta required) = (False, meta)"
    using assms(5) by (cases "EnsureObjectMeta d (ObjectMeta required) (ObjectMeta required)") auto
  have get: "Get (Name (ObjectMeta required)) w1 = (Inr required, called (GetAction (Name (ObjectMeta required))) None w1)"
    using stored by (simp add: Get_def)
  have second: "((obj2, changed2, err2), w2) = ((Some required, False, None), called (GetAction (Name (ObjectMeta required))) None w1)"
    using apply_nothing_to_change [of manifests "file" raw d required w1 required _ meta]
      assms(1,2,7) get meta by simp
  show ?thesis using first second by (simp add: called_def newCalls_def)
qed

theorem apply_twice_witness:
  "objects emptyHub (Name (ObjectMeta managedclustersets)) = None
   \<and> faults emptyHub = (\<lambda>i a. None)
   \<and> newCalls emptyHub createdHub
       = [(GetAction (Name (ObjectMeta managedclustersets)), Some (StatusNotFound (Name (ObjectMeta managedclustersets)))),
          (CreateAction managedclustersets, None)]
   \<and> newCalls createdHub (called (GetAction ''managedclustersets.cluster.open-cluster-management.io'') None createdHub)
       = [(GetAction (Name (ObjectMeta managedclustersets)), None)]"
  using apply_twice
    [of "assetFunc hub" "''cluster-manager/cluster-manager-managedclustersets-migration.yaml''"
        "''cluster-manager/cluster-manager-managedclustersets-migration.yaml''" hub managedclustersets emptyHub
        "Some managedclustersets" True None createdHub "Some managedclustersets" False None
        "called (GetAction ''managedclustersets.cluster.open-cluster-management.io'') None createdHub"]
  by (simp add: hub_renders_first apply_first_on_emptyHub apply_first_on_createdHub)
    (simp add: hub_defs)

text \<open>
  C3, as the code has it: the multi-artifact apply follows the aggregate-and-continue
  policy (every request file is attempted, whatever happened to the files before it, and
  all failures are combined into one aggregate error). The multi-artifact remove does
  not: it removes file by file, returns the error of the first removal that fails, alone,
  and leaves the files after it unattempted; when no removal fails it has attempted all
  and returns nil.
\<close>

theorem apply_aggregates_remove_stops:
  "applyStorageVersionMigrations d w = aggregateAndContinue (applyArtifact d) migrationRequestFiles w
   \<and> (\<forall>pre f post rs w1 e w2.
         migrationRequestFiles = pre @ f # post
         \<and> attemptEvery (removeArtifact d) pre w = (rs, w1) \<and> failures rs = []
         \<and> removeArtifact d f w1 = (Some e, w2)
         \<longrightarrow> removeStorageVersionMigrations d w = (Some e, w2))
   \<and> (\<forall>rs w1. attemptEvery (removeArtifact d) migrationRequestFiles w = (rs, w1) \<and> failures rs = []
         \<longrightarrow> removeStorageVersionMigrations d w = (None, w1))"
proof (intro conjI allI impI)
  show "applyStorageVersionMigrations d w = aggregateAndContinue (applyArtifact d) migrationRequestFiles w"
    by (simp add: applyStorageVersionMigrations_def aggregateAndContinue_def applyEach_attemptEvery
        split: prod.splits)
next
  fix pre f post rs w1 e w2
  assume a: "migrationRequestFiles = pre @ f # post
         \<and> attemptEvery (removeArtifact d) pre w = (rs, w1) \<and> failures rs = []
         \<and> removeArtifact d f w1 = (Some e, w2)"
  then have "removeEach d (pre @ f # post) w = removeEach d (f # post) w1"
    using removeEach_after_successes by blast
  with a show "removeStorageVersionMigrations d w = (Some e, w2)"
    by (simp add: removeStorageVersionMigrations_def removeArtifact_def)
next
  fix rs w1
  assume a: "attemptEvery (removeArtifact d) migrationRequestFiles w = (rs, w1) \<and> failures rs = []"
  then have "removeEach d (migrationRequestFiles @ []) w = removeEach d [] w1"
    using removeEach_after_successes by blast
  then show "removeStorageVersionMigrations d w = (None, w1)"
    by (simp add: removeStorageVersionMigrations_def)
qed

theorem apply_aggregates_remove_stops_witness:
  "migrationRequestFiles = [] @ ''cluster-manager/cluster-manager-managedclustersets-migration.yaml''
      # [''cluster-manager/cluster-manager-managedclustersetbindings-migration.yaml'']
   \<and> removeArtifact hub ''cluster-manager/cluster-manager-managedclustersets-migration.yaml'' unavailableHub
      = (Some (StatusOther ''unavailable''),
         called (DeleteAction ''managedclustersets.cluster.open-cluster-management.io'')
          (Some (StatusOther ''unavailable'')) unavailableHub)
   \<and> removeStorageVersionMigrations hub unavailableHub
      = (Some (StatusOther ''unavailable''),
         called (DeleteAction ''managedclustersets.cluster.open-cluster-management.io'')
          (Some (StatusOther ''unavailable'')) unavailableHub)
   \<and> fst (aggregateAndContinue (applyArtifact hub) migrationRequestFiles unavailableHub)
      = Some (Aggregate [StatusOther ''unavailable'', StatusOther ''unavailable''])"
  using apply_aggregates_remove_stops [of hub unavailableHub] apply_on_unavailableHub
  by (simp add: remove_on_unavailableHub)
    (simp add: removeArtifact_def removeStorageVersionMigration_def Delete_def hub_def
      assetFunc_def migrationRequestFiles_def managedclustersets_def named_def)

text \<open>
  C3 as stated fails for the remove: on a store that fails every call, the removal of the
  first request fails, the second request is never attempted (one delete call in the
  trace), and the error returned is that of the first removal, where aggregate and
  continue would return the aggregate of two.
\<close>

theorem remove_stops_at_first_failure_counterexample:
  "fst (removeStorageVersionMigrations hub unavailableHub) = Some (StatusOther ''unavailable'')
   \<and> calls (snd (removeStorageVersionMigrations hub unavailableHub))
       = [(DeleteAction ''managedclustersets.cluster.open-cluster-management.io'', Some (StatusOther ''unavailable''))]
   \<and> fst (aggregateAndContinue (removeArtifact hub) migrationRequestFiles unavailableHub)
       = Some (Aggregate [StatusOther ''unavailable'', StatusOther ''unavailable''])"
  by (simp add: remove_on_unavailableHub attemptEvery_remove_on_unavailableHub)

text \<open>
  C4: for a request file that renders to a migration request of any name,
  removeStorageVersionMigration returns nil when the delete call reports NotFound, and
  the stored objects are then as before; any other error of the delete call is returned.
  In particular, removing an object the store does not hold succeeds and changes nothing.
\<close>

theorem removeStorageVersionMigration_not_found_is_success:
  assumes "manifests file = Inr raw" and "Decode d raw = Inr (SVM required)"
  shows "(\<forall>e w1. Delete (Name (ObjectMeta required)) w = (Some e, w1) \<and> IsNotFound e
            \<longrightarrow> removeStorageVersionMigration d manifests file w = (None, w1) \<and> objects w1 = objects w)
    \<and> (\<forall>e w1. Delete (Name (ObjectMeta required)) w = (Some e, w1) \<and> \<not> IsNotFound e
            \<longrightarrow> removeStorageVersionMigration d manifests file w = (Some e, w1))
    \<and> (objects w (Name (ObjectMeta required)) = None
          \<and> faults w (length (calls w)) (DeleteAction (Name (ObjectMeta required))) = None
            \<longrightarrow> fst (removeStorageVersionMigration d manifests file w) = None
              \<and> objects (snd (removeStorageVersionMigration d manifests file w)) = objects w)"
  using assms
  by (auto simp: removeStorageVersionMigration_def Delete_def split: option.splits)

theorem removeStorageVersionMigration_not_found_is_success_witness:
  "objects emptyHub (Name (ObjectMeta managedclustersets)) = None
   \<and> fst (removeStorageVersionMigration hub (assetFunc hub)
       ''cluster-manager/cluster-manager-managedclustersets-migration.yaml'' emptyHub) = None
   \<and> objects (snd (removeStorageVersionMigration hub (assetFunc hub)
       ''cluster-manager/cluster-manager-managedclustersets-migration.yaml'' emptyHub)) = objects emptyHub"
  using removeStorageVersionMigration_not_found_is_success
    [of "assetFunc hub" "''cluster-manager/cluster-manager-managedclustersets-migration.yaml''"
        "''cluster-manager/cluster-manager-managedclustersets-migration.yaml''" hub managedclustersets emptyHub]
  by (simp add: hub_renders_first)

text \<open>
  C5: for a ClusterManager the lister holds, when the store does not hold the
  StorageVersionMigration CRD (and answers the lookup), sync returns nil after that one
  lookup: no create, update or delete call is issued and the stored objects are as before.
\<close>

theorem sync_without_crd:
  assumes "clusterManagerLister key = Inr cm"
    and "migrationRequestCRDName \<notin> crds w"
    and "faults w (length (calls w)) (GetCRDAction migrationRequestCRDName) = None"
  shows "sync d clusterManagerLister key w
     = (None, called (GetCRDAction migrationRequestCRDName) (Some (StatusNotFound migrationRequestCRDName)) w)
    \<and> (\<forall>c \<in> set (newCalls w (snd (sync d clusterManagerLister key w))). \<not> isMutation (fst c))
    \<and> objects (snd (sync d clusterManagerLister key w)) = objects w"
  using assms by (simp add: sync_def supportStorageVersionMigration_def GetCRD_def)

theorem sync_without_crd_witness:
  "migrationRequestCRDName \<notin> crds hubWithoutCRD
   \<and> sync hub (listerOf (aClusterManager None [])) ''cluster-manager'' hubWithoutCRD
     = (None, called (GetCRDAction migrationRequestCRDName) (Some (StatusNotFound migrationRequestCRDName)) hubWithoutCRD)"
  using sync_without_crd [of "listerOf (aClusterManager None [])" "''cluster-manager''" "aClusterManager None []"
      hubWithoutCRD hub]
  by (simp add: listerOf_def aClusterManager_def named_def hubWithoutCRD_def emptyHub_def)

text \<open>
  C6: for a ClusterManager the lister holds, with the CRD in the store (which answers the
  lookup), no deletion timestamp and the Applied condition not true, sync returns nil,
  adds the key to the queue with a delay of five seconds (5000000000 nanoseconds), and
  issues no create, update or delete call; the stored objects are as before.
\<close>

theorem sync_waits_for_applied:
  assumes "clusterManagerLister key = Inr cm"
    and "migrationRequestCRDName \<in> crds w"
    and "faults w (length (calls w)) (GetCRDAction migrationRequestCRDName) = None"
    and "IsZero (DeletionTimestamp (ClusterManagerMeta cm))"
    and "\<not> IsStatusConditionTrue (Conditions cm) clusterManagerApplied"
  shows "sync d clusterManagerLister key w
     = (None, AddAfter key 5000000000 (called (GetCRDAction migrationRequestCRDName) None w))
    \<and> queue (snd (sync d clusterManagerLister key w)) = queue w @ [(key, 5000000000)]
    \<and> (\<forall>c \<in> set (newCalls w (snd (sync d clusterManagerLister key w))). \<not> isMutation (fst c))
    \<and> objects (snd (sync d clusterManagerLister key w)) = objects w"
  using assms
  by (simp add: sync_def supportStorageVersionMigration_def GetCRD_def AddAfter_def Second_def newCalls_def)

theorem sync_waits_for_applied_witness:
  "migrationRequestCRDName \<in> crds emptyHub
   \<and> \<not> IsStatusConditionTrue (Conditions (aClusterManager None [])) clusterManagerApplied
   \<and> queue (snd (sync hub (listerOf (aClusterManager None [])) ''cluster-manager'' emptyHub))
       = [(''cluster-manager'', 5000000000)]"
  using sync_waits_for_applied [of "listerOf (aClusterManager None [])" "''cluster-manager''" "aClusterManager None []"
      emptyHub hub]
  by (simp add: listerOf_def aClusterManager_def named_def AddAfter_def)

text \<open>
  C7, as the code has it: for a ClusterManager the lister holds and whose deletion
  timestamp is set, sync never adds to the queue, whatever the Applied condition and the
  store. When the store holds the CRD (and answers the lookup), sync is the removal of
  the migration requests: when it returns nil and every request file renders, it has
  issued a delete call for each of them, in order; and it stops at the first removal
  that fails, returning that error. When the store does not hold the CRD, sync returns
  nil after the lookup alone; more generally, whenever the CRD lookup reports an error,
  NotFound or not, the lookup is the only call sync makes, so no removal call is issued.
\<close>

theorem sync_of_deleting_clusterManager:
  assumes "clusterManagerLister key = Inr cm"
    and "\<not> IsZero (DeletionTimestamp (ClusterManagerMeta cm))"
  shows "queue (snd (sync d clusterManagerLister key w)) = queue w
    \<and> (migrationRequestCRDName \<in> crds w
         \<and> faults w (length (calls w)) (GetCRDAction migrationRequestCRDName) = None
       \<longrightarrow> sync d clusterManagerLister key w
           = removeStorageVersionMigrations d (called (GetCRDAction migrationRequestCRDName) None w))
    \<and> (\<forall>required. migrationRequestCRDName \<in> crds w
         \<and> faults w (length (calls w)) (GetCRDAction migrationRequestCRDName) = None
         \<and> (\<forall>f \<in> set migrationRequestFiles. desired d f = Some (required f))
         \<and> fst (sync d clusterManagerLister key w) = None
       \<longrightarrow> map fst (newCalls w (snd (sync d clusterManagerLister key w)))
           = GetCRDAction migrationRequestCRDName
             # map (\<lambda>f. DeleteAction (Name (ObjectMeta (required f)))) migrationRequestFiles)
    \<and> (\<forall>pre f post rs w1 e w2. migrationRequestCRDName \<in> crds w
         \<and> faults w (length (calls w)) (GetCRDAction migrationRequestCRDName) = None
         \<and> migrationRequestFiles = pre @ f # post
         \<and> attemptEvery (removeArtifact d) pre (called (GetCRDAction migrationRequestCRDName) None w) = (rs, w1)
         \<and> failures rs = []
         \<and> removeArtifact d f w1 = (Some e, w2)
       \<longrightarrow> sync d clusterManagerLister key w = (Some e, w2))
    \<and> (migrationRequestCRDName \<notin> crds w
         \<and> faults w (length (calls w)) (GetCRDAction migrationRequestCRDName) = None
       \<longrightarrow> sync d clusterManagerLister key w
           = (None, called (GetCRDAction migrationRequestCRDName)
                      (Some (StatusNotFound migrationRequestCRDName)) w))
    \<and> (\<forall>e w1. GetCRD migrationRequestCRDName w = (Some e, w1)
       \<longrightarrow> newCalls w (snd (sync d clusterManagerLister key w)) = [(GetCRDAction migrationRequestCRDName, Some e)])"
proof (intro conjI allI impI)
  show "queue (snd (sync d clusterManagerLister key w)) = queue w"
    using assms
    by (auto simp: sync_def supportStorageVersionMigration_def removeStorageVersionMigrations_def
        removeEach_keeps_queue split: prod.splits option.splits sum.splits dest!: GetCRD_outcome)
next
  assume "migrationRequestCRDName \<in> crds w
         \<and> faults w (length (calls w)) (GetCRDAction migrationRequestCRDName) = None"
  then show "sync d clusterManagerLister key w
           = removeStorageVersionMigrations d (called (GetCRDAction migrationRequestCRDName) None w)"
    using assms by (simp add: sync_def supportStorageVersionMigration_def GetCRD_def)
next
  fix required
  assume a: "migrationRequestCRDName \<in> crds w
         \<and> faults w (length (calls w)) (GetCRDAction migrationRequestCRDName) = None
         \<and> (\<forall>f \<in> set migrationRequestFiles. desired d f = Some (required f))
         \<and> fst (sync d clusterManagerLister key w) = None"
  then have run: "sync d clusterManagerLister key w
           = removeEach d migrationRequestFiles (called (GetCRDAction migrationRequestCRDName) None w)"
    using assms
    by (simp add: sync_def supportStorageVersionMigration_def GetCRD_def removeStorageVersionMigrations_def)
  then have "removeEach d migrationRequestFiles (called (GetCRDAction migrationRequestCRDName) None w)
     = (None, snd (sync d clusterManagerLister key w))"
    using a by (metis prod.collapse)
  from removeEach_success_calls [OF this, of required] a
  have "map fst (calls (snd (sync d clusterManagerLister key w)))
     = map fst (calls w) @ GetCRDAction migrationRequestCRDName
         # map (\<lambda>f. DeleteAction (Name (ObjectMeta (required f)))) migrationRequestFiles"
    by simp
  then show "map fst (newCalls w (snd (sync d clusterManagerLister key w)))
           = GetCRDAction migrationRequestCRDName
             # map (\<lambda>f. DeleteAction (Name (ObjectMeta (required f)))) migrationRequestFiles"
    by (simp add: newCalls_def drop_map [symmetric])
next
  fix pre f post rs w1 e w2
  assume a: "migrationRequestCRDName \<in> crds w
         \<and> faults w (length (calls w)) (GetCRDAction migrationRequestCRDName) = None
         \<and> migrationRequestFiles = pre @ f # post
         \<and> attemptEvery (removeArtifact d) pre (called (GetCRDAction migrationRequestCRDName) None w) = (rs, w1)
         \<and> failures rs = []
         \<and> removeArtifact d f w1 = (Some e, w2)"
  then have run: "sync d clusterManagerLister key w
           = removeEach d (pre @ f # post) (called (GetCRDAction migrationRequestCRDName) None w)"
    using assms
    by (simp add: sync_def supportStorageVersionMigration_def GetCRD_def removeStorageVersionMigrations_def)
  from a have "removeEach d (pre @ f # post) (called (GetCRDAction migrationRequestCRDName) None w)
      = removeEach d (f # post) w1"
    using removeEach_after_successes by blast
  with run a show "sync d clusterManagerLister key w = (Some e, w2)"
    by (simp add: removeArtifact_def)
next
  assume "migrationRequestCRDName \<notin> crds w
         \<and> faults w (length (calls w)) (GetCRDAction migrationRequestCRDName) = None"
  then show "sync d clusterManagerLister key w
           = (None, called (GetCRDAction migrationRequestCRDName)
                      (Some (StatusNotFound migrationRequestCRDName)) w)"
    using assms by (simp add: sync_def supportStorageVersionMigration_def GetCRD_def)
next
  fix e w1
  assume "GetCRD migrationRequestCRDName w = (Some e, w1)"
  then show "newCalls w (snd (sync d clusterManagerLister key w)) = [(GetCRDAction migrationRequestCRDName, Some e)]"
    using assms
    by (auto simp: sync_def supportStorageVersionMigration_def dest!: GetCRD_outcome)
qed

theorem sync_of_deleting_clusterManager_witness:
  "\<not> IsZero (DeletionTimestamp (ClusterManagerMeta (aClusterManager (Some 1) [])))
   \<and> queue (snd (sync hub (listerOf (aClusterManager (Some 1) [])) ''cluster-manager'' emptyHub)) = []
   \<and> map fst (newCalls emptyHub (snd (sync hub (listerOf (aClusterManager (Some 1) [])) ''cluster-manager'' emptyHub)))
      = [GetCRDAction migrationRequestCRDName,
         DeleteAction ''managedclustersets.cluster.open-cluster-management.io'',
         DeleteAction ''managedclustersetbindings.cluster.open-cluster-management.io'']
   \<and> sync hub (listerOf (aClusterManager (Some 1) [])) ''cluster-manager'' hubWithoutCRD
      = (None, called (GetCRDAction migrationRequestCRDName)
                 (Some (StatusNotFound migrationRequestCRDName)) hubWithoutCRD)"
proof -
  let ?run = "sync hub (listerOf (aClusterManager (Some 1) [])) ''cluster-manager'' emptyHub"
  let ?required = "\<lambda>f. if f = ''cluster-manager/cluster-manager-managedclustersets-migration.yaml''
           then managedclustersets else managedclustersetbindings"
  have held: "listerOf (aClusterManager (Some 1) []) ''cluster-manager'' = Inr (aClusterManager (Some 1) [])"
    by (simp add: listerOf_def aClusterManager_def named_def)
  have deleting: "\<not> IsZero (DeletionTimestamp (ClusterManagerMeta (aClusterManager (Some 1) [])))"
    by (simp add: aClusterManager_def)
  note run = sync_of_deleting_clusterManager
    [of "listerOf (aClusterManager (Some 1) [])" "''cluster-manager''" "aClusterManager (Some 1) []" hub emptyHub,
     OF held deleting]
  from run have "queue (snd ?run) = queue emptyHub" by (rule conjunct1)
  then have no_requeue: "queue (snd ?run) = []" by simp
  note issued = run [THEN conjunct2, THEN conjunct2, THEN conjunct1, rule_format, of ?required]
  have "map fst (newCalls emptyHub (snd ?run))
           = GetCRDAction migrationRequestCRDName
             # map (\<lambda>f. DeleteAction (Name (ObjectMeta (?required f)))) migrationRequestFiles"
    by (rule issued) (simp add: hub_desired sync_deleting_on_emptyHub)
  then have all_deleted: "map fst (newCalls emptyHub (snd ?run))
      = [GetCRDAction migrationRequestCRDName,
         DeleteAction ''managedclustersets.cluster.open-cluster-management.io'',
         DeleteAction ''managedclustersetbindings.cluster.open-cluster-management.io'']"
    by (simp add: migrationRequestFiles_def managedclustersets_def managedclustersetbindings_def named_def)
  note gated = sync_of_deleting_clusterManager
    [of "listerOf (aClusterManager (Some 1) [])" "''cluster-manager''" "aClusterManager (Some 1) []" hub hubWithoutCRD,
     OF held deleting, THEN conjunct2, THEN conjunct2, THEN conjunct2, THEN conjunct2, THEN conjunct1, rule_format]
  have no_removal: "sync hub (listerOf (aClusterManager (Some 1) [])) ''cluster-manager'' hubWithoutCRD
      = (None, called (GetCRDAction migrationRequestCRDName)
                 (Some (StatusNotFound migrationRequestCRDName)) hubWithoutCRD)"
    by (rule gated) simp
  from deleting no_requeue all_deleted no_removal show ?thesis by simp
qed

text \<open>
  C7 as stated fails: with the deletion timestamp set and no CRD in the store, sync
  returns nil after the CRD lookup and issues no removal call; and with the CRD present
  on a store that fails deletes, it stops after the first failed delete, so the second
  request gets no removal call.
\<close>

theorem sync_deleting_without_crd_counterexample:
  "\<not> IsZero (DeletionTimestamp (ClusterManagerMeta (aClusterManager (Some 1) [])))
   \<and> fst (sync hub (listerOf (aClusterManager (Some 1) [])) ''cluster-manager'' hubWithoutCRD) = None
   \<and> calls (snd (sync hub (listerOf (aClusterManager (Some 1) [])) ''cluster-manager'' hubWithoutCRD))
       = [(GetCRDAction ''storageversionmigrations.migration.k8s.io'',
           Some (StatusNotFound ''storageversionmigrations.migration.k8s.io''))]
   \<and> calls (snd (sync hub (listerOf (aClusterManager (Some 1) [])) ''cluster-manager'' deleteFailsHub))
       = [(GetCRDAction ''storageversionmigrations.migration.k8s.io'', None),
          (DeleteAction ''managedclustersets.cluster.open-cluster-management.io'',
           Some (StatusOther ''unavailable''))]"
  by (simp add: sync_def supportStorageVersionMigration_def GetCRD_def listerOf_def aClusterManager_def
      named_def hubWithoutCRD_def deleteFailsHub_def emptyHub_def migrationRequestCRDName_def
      removeStorageVersionMigrations_def removeStorageVersionMigration_def Delete_def hub_def
      assetFunc_def migrationRequestFiles_def managedclustersets_def)

text \<open>
  C8: applyStorageVersionMigration emits at most one signal per call. It emits "Created"
  exactly when a create call succeeded and "CreateFailed", carrying the error, exactly
  when a create call failed with that error; likewise "Updated" and "UpdateFailed" for
  the update call. The error of a failed create or update is the error the function
  returns. No error is swallowed: every error of a store call is the error returned,
  but for the NotFound of the get, which is what leads to the create; and a file that
  does not render, does not decode or decodes to another kind of object returns the
  error made for it.
\<close>

theorem applyStorageVersionMigration_signals:
  assumes "applyStorageVersionMigration d manifests file w = ((obj, changed, err), w')"
  shows "length (newEvents w w') \<le> 1
    \<and> ((\<exists>a. (CreateAction a, None) \<in> set (newCalls w w'))
         \<longleftrightarrow> (\<exists>s. Eventf ''StorageVersionMigrationCreated'' s \<in> set (newEvents w w')))
    \<and> (\<forall>e. (\<exists>a. (CreateAction a, Some e) \<in> set (newCalls w w'))
         \<longleftrightarrow> (\<exists>s. Warningf ''StorageVersionMigrationCreateFailed'' s e \<in> set (newEvents w w')))
    \<and> ((\<exists>a. (UpdateAction a, None) \<in> set (newCalls w w'))
         \<longleftrightarrow> (\<exists>s. Eventf ''StorageVersionMigrationUpdated'' s \<in> set (newEvents w w')))
    \<and> (\<forall>e. (\<exists>a. (UpdateAction a, Some e) \<in> set (newCalls w w'))
         \<longleftrightarrow> (\<exists>s. Warningf ''StorageVersionMigrationUpdateFailed'' s e \<in> set (newEvents w w')))
    \<and> (\<forall>a e. (CreateAction a, Some e) \<in> set (newCalls w w') \<or> (UpdateAction a, Some e) \<in> set (newCalls w w')
         \<longrightarrow> err = Some e)
    \<and> (\<forall>a e. (a, Some e) \<in> set (newCalls w w') \<and> (\<forall>n. a = GetAction n \<longrightarrow> \<not> IsNotFound e)
         \<longrightarrow> err = Some e)
    \<and> (\<forall>e. manifests file = Inl e \<longrightarrow> err = Some (MissingAsset file e))
    \<and> (\<forall>raw e. manifests file = Inr raw \<and> Decode d raw = Inl e \<longrightarrow> err = Some (CannotDecode file e))
    \<and> (\<forall>raw kind. manifests file = Inr raw \<and> Decode d raw = Inr (OtherObject kind)
         \<longrightarrow> err = Some (InvalidObject file))"
proof -
  have traced: "length (newEvents w w') \<le> 1
    \<and> ((\<exists>a. (CreateAction a, None) \<in> set (newCalls w w'))
         \<longleftrightarrow> (\<exists>s. Eventf ''StorageVersionMigrationCreated'' s \<in> set (newEvents w w')))
    \<and> (\<forall>e. (\<exists>a. (CreateAction a, Some e) \<in> set (newCalls w w'))
         \<longleftrightarrow> (\<exists>s. Warningf ''StorageVersionMigrationCreateFailed'' s e \<in> set (newEvents w w')))
    \<and> ((\<exists>a. (UpdateAction a, None) \<in> set (newCalls w w'))
         \<longleftrightarrow> (\<exists>s. Eventf ''StorageVersionMigrationUpdated'' s \<in> set (newEvents w w')))
    \<and> (\<forall>e. (\<exists>a. (UpdateAction a, Some e) \<in> set (newCalls w w'))
         \<longleftrightarrow> (\<exists>s. Warningf ''StorageVersionMigrationUpdateFailed'' s e \<in> set (newEvents w w')))
    \<and> (\<forall>a e. (CreateAction a, Some e) \<in> set (newCalls w w') \<or> (UpdateAction a, Some e) \<in> set (newCalls w w')
         \<longrightarrow> err = Some e)"
    using apply_paths [OF assms] by (elim disjE exE conjE) auto
  have propagated: "\<forall>a e. (a, Some e) \<in> set (newCalls w w') \<and> (\<forall>n. a = GetAction n \<longrightarrow> \<not> IsNotFound e)
         \<longrightarrow> err = Some e"
    using apply_paths [OF assms] by (elim disjE exE conjE) auto
  have missing: "\<forall>e. manifests file = Inl e \<longrightarrow> err = Some (MissingAsset file e)"
    using assms apply_render_errors(1) [of manifests "file" _ d w] by auto
  have undecoded: "\<forall>raw e. manifests file = Inr raw \<and> Decode d raw = Inl e \<longrightarrow> err = Some (CannotDecode file e)"
    using assms apply_render_errors(2) [of manifests "file" _ d _ w] by auto
  have invalid: "\<forall>raw kind. manifests file = Inr raw \<and> Decode d raw = Inr (OtherObject kind)
         \<longrightarrow> err = Some (InvalidObject file)"
    using assms apply_render_errors(3) [of manifests "file" _ d _ w] by auto
  from traced propagated missing undecoded invalid show ?thesis by blast
qed

theorem applyStorageVersionMigration_signals_witness:
  "(\<exists>a. (CreateAction a, None) \<in> set (newCalls emptyHub (snd (applyStorageVersionMigration hub (assetFunc hub)
     ''cluster-manager/cluster-manager-managedclustersets-migration.yaml'' emptyHub))))
   \<and> (\<exists>s. Eventf ''StorageVersionMigrationCreated'' s \<in> set (newEvents emptyHub (snd (applyStorageVersionMigration hub (assetFunc hub)
     ''cluster-manager/cluster-manager-managedclustersets-migration.yaml'' emptyHub))))
   \<and> (GetAction ''managedclustersets.cluster.open-cluster-management.io'', Some (StatusOther ''unavailable''))
       \<in> set (newCalls unavailableHub (snd (applyStorageVersionMigration hub (assetFunc hub)
     ''cluster-manager/cluster-manager-managedclustersets-migration.yaml'' unavailableHub)))
   \<and> snd (snd (fst (applyStorageVersionMigration hub (assetFunc hub)
     ''cluster-manager/cluster-manager-managedclustersets-migration.yaml'' unavailableHub)))
       = Some (StatusOther ''unavailable'')"
  using applyStorageVersionMigration_signals [OF apply_first_on_emptyHub]
    applyStorageVersionMigration_signals [OF apply_first_on_unavailableHub]
  by (simp add: apply_first_on_emptyHub apply_first_on_unavailableHub newCalls_def newEvents_def createdHub_def)

text \<open>
  C9: for a queue key whose ClusterManager the lister does not find, sync returns nil
  and leaves the world as it was (no store read, no mutation, no event, no requeue); a
  lookup error that is not NotFound is returned as the error, the world again untouched.
\<close>

theorem sync_clusterManager_lookup_failed:
  assumes "clusterManagerLister key = Inl err"
  shows "sync d clusterManagerLister key w = ((if IsNotFound err then None else Some err), w)"
  using assms by (simp add: sync_def)

theorem sync_clusterManager_lookup_failed_witness:
  "listerOf (aClusterManager None []) ''gone'' = Inl (StatusNotFound ''gone'')
   \<and> sync hub (listerOf (aClusterManager None [])) ''gone'' emptyHub = (None, emptyHub)"
  using sync_clusterManager_lookup_failed
    [of "listerOf (aClusterManager None [])" "''gone''" "StatusNotFound ''gone''" hub emptyHub]
  by (simp add: listerOf_def aClusterManager_def named_def)

text \<open>
  C10: the changed flag is true exactly when the call issued a create or an update
  against the store, failed attempts included. It is false when the file does not
  render, does not decode, decodes to an object of another kind, when the get fails with
  an error other than NotFound, and when the existing object needs no change.
\<close>

theorem changed_iff_create_or_update_attempted:
  assumes "applyStorageVersionMigration d manifests file w = ((obj, changed, err), w')"
  shows "(changed \<longleftrightarrow> (\<exists>c \<in> set (newCalls w w'). isCreateOrUpdate (fst c)))
    \<and> ((\<exists>e. manifests file = Inl e) \<longrightarrow> \<not> changed)
    \<and> ((\<exists>raw e. manifests file = Inr raw \<and> Decode d raw = Inl e) \<longrightarrow> \<not> changed)
    \<and> ((\<exists>raw kind. manifests file = Inr raw \<and> Decode d raw = Inr (OtherObject kind)) \<longrightarrow> \<not> changed)
    \<and> ((\<exists>n e. (GetAction n, Some e) \<in> set (newCalls w w') \<and> \<not> IsNotFound e) \<longrightarrow> \<not> changed)
    \<and> ((\<exists>raw required existing w1 meta. manifests file = Inr raw \<and> Decode d raw = Inr (SVM required)
           \<and> Get (Name (ObjectMeta required)) w = (Inr existing, w1)
           \<and> EnsureObjectMeta d (ObjectMeta existing) (ObjectMeta required) = (False, meta)
           \<and> Spec existing = Spec required) \<longrightarrow> \<not> changed)"
proof (intro conjI impI)
  show "changed \<longleftrightarrow> (\<exists>c \<in> set (newCalls w w'). isCreateOrUpdate (fst c))"
    using apply_paths [OF assms] by (elim disjE exE conjE) simp_all
next
  assume "\<exists>e. manifests file = Inl e"
  then show "\<not> changed" using assms apply_not_rendered [of manifests "file" _ d w] by auto
next
  assume "\<exists>raw e. manifests file = Inr raw \<and> Decode d raw = Inl e"
  then show "\<not> changed" using assms apply_not_rendered [of manifests "file" _ d w] by auto
next
  assume "\<exists>raw kind. manifests file = Inr raw \<and> Decode d raw = Inr (OtherObject kind)"
  then show "\<not> changed" using assms apply_not_rendered [of manifests "file" _ d w] by auto
next
  assume "\<exists>n e. (GetAction n, Some e) \<in> set (newCalls w w') \<and> \<not> IsNotFound e"
  then show "\<not> changed" using apply_paths [OF assms] by (elim disjE exE conjE) auto
next
  assume "\<exists>raw required existing w1 meta. manifests file = Inr raw \<and> Decode d raw = Inr (SVM required)
           \<and> Get (Name (ObjectMeta required)) w = (Inr existing, w1)
           \<and> EnsureObjectMeta d (ObjectMeta existing) (ObjectMeta required) = (False, meta)
           \<and> Spec existing = Spec required"
  then show "\<not> changed" using assms apply_nothing_to_change [of manifests "file" _ d] by auto
qed

theorem changed_iff_create_or_update_attempted_witness:
  "applyStorageVersionMigration hub (assetFunc hub)
     ''cluster-manager/cluster-manager-managedclustersets-migration.yaml'' emptyHub
    = ((Some managedclustersets, True, None), snd (applyStorageVersionMigration hub (assetFunc hub)
     ''cluster-manager/cluster-manager-managedclustersets-migration.yaml'' emptyHub))
   \<and> (\<exists>c \<in> set (newCalls emptyHub (snd (applyStorageVersionMigration hub (assetFunc hub)
     ''cluster-manager/cluster-manager-managedclustersets-migration.yaml'' emptyHub))). isCreateOrUpdate (fst c))"
  using changed_iff_create_or_update_attempted [OF apply_first_on_emptyHub]
  by (simp add: apply_first_on_emptyHub)

end
